theory Spec2Isabelle
  imports Complex_Main "HOL-Library.Sublist"
begin

section \<open>JavaScript values\<close>

text \<open>
  A JavaScript \<^verbatim>\<open>number\<close> is a finite value, one of the two infinities, or NaN.
  Finite values are modelled by the reals: rounding and overflow of IEEE doubles are
  not part of the model. Wall-clock readings (\<^verbatim>\<open>Date.now()\<close>) are whole
  milliseconds and are modelled by \<open>int\<close>.
\<close>

datatype number = Finite real | PosInfinity | NegInfinity | NaN

text \<open>
  A value of TypeScript type \<^verbatim>\<open>unknown\<close>, as a handler receives it from the wire.
\<close>

datatype js_value =
    JUndefined
  | JNull
  | JBoolean bool
  | JNumber number
  | JString string
  | JObject "(string \<times> js_value) list"

text \<open>
  \<^verbatim>\<open>isFiniteNumber(value)\<close>: \<^verbatim>\<open>typeof value === 'number' && Number.isFinite(value)\<close>.
\<close>

fun isFiniteNumber :: "js_value \<Rightarrow> bool" where
  "isFiniteNumber (JNumber (Finite r)) = True"
| "isFiniteNumber v = False"

section \<open>The gateway (stream.gateway.ts)\<close>

record StreamState =
  isPlaying :: bool
  currentTime :: number
  updatedAtMs :: int

text \<open>
  The snapshot type \<^verbatim>\<open>SyncState\<close> of the gateway. Its fields carry the prefix
  \<open>sync_\<close> because a field name cannot be shared with \<open>StreamState\<close>.
\<close>

record SyncState =
  sync_isPlaying :: bool
  sync_currentTime :: real
  sync_serverTimeMs :: int

text \<open>
  What a handler sends: \<^verbatim>\<open>this.server.emit\<close> goes to every connected socket,
  \<^verbatim>\<open>client.emit\<close> to the one socket, which is named by its id.
\<close>

type_synonym socket = string

datatype emission = ToAll SyncState | ToClient socket SyncState

text \<open>
  The gateway object: the field \<^verbatim>\<open>state\<close> and whether the field \<^verbatim>\<open>server\<close> has been
  set by the framework.
\<close>

record StreamGateway =
  state :: StreamState
  server :: bool

definition initialState :: "int \<Rightarrow> StreamState" where
  "initialState startMs = \<lparr>isPlaying = False, currentTime = Finite 0, updatedAtMs = startMs\<rparr>"

definition getEffectiveTime :: "StreamState \<Rightarrow> int \<Rightarrow> real" where
  "getEffectiveTime s nowMs =
     (let baseTime = (case currentTime s of Finite r \<Rightarrow> r | _ \<Rightarrow> 0) in
      if \<not> isPlaying s then max 0 baseTime
      else
        let elapsedSeconds = max 0 (real_of_int (nowMs - updatedAtMs s) / 1000)
        in max 0 (baseTime + elapsedSeconds))"

definition commitTime :: "StreamState \<Rightarrow> int \<Rightarrow> StreamState" where
  "commitTime s nowMs =
     (let s1 = s\<lparr>currentTime := Finite (getEffectiveTime s nowMs)\<rparr>
      in s1\<lparr>updatedAtMs := nowMs\<rparr>)"

definition getSyncState :: "StreamState \<Rightarrow> int \<Rightarrow> SyncState" where
  "getSyncState s nowMs =
     \<lparr>sync_isPlaying = isPlaying s,
      sync_currentTime = getEffectiveTime s nowMs,
      sync_serverTimeMs = nowMs\<rparr>"

text \<open>
  \<^verbatim>\<open>broadcastSyncState\<close> reads the clock itself: \<open>nowMs\<close> is that reading.
\<close>

definition broadcastSyncState :: "StreamGateway \<Rightarrow> int \<Rightarrow> emission list" where
  "broadcastSyncState g nowMs =
     (if \<not> server g then [] else [ToAll (getSyncState (state g) nowMs)])"

text \<open>
  The first branch of \<^verbatim>\<open>handlePlay\<close> and \<^verbatim>\<open>handlePause\<close> (the source repeats it in
  both): an explicit finite time is clamped at zero and stored, anything else commits.
\<close>

fun checkpoint :: "StreamState \<Rightarrow> js_value \<Rightarrow> int \<Rightarrow> StreamState" where
  "checkpoint s (JNumber (Finite t)) nowMs =
     (let s1 = s\<lparr>currentTime := Finite (max 0 t)\<rparr> in s1\<lparr>updatedAtMs := nowMs\<rparr>)"
| "checkpoint s v nowMs = commitTime s nowMs"

text \<open>
  Each handler takes the payload, the clock reading \<open>nowMs\<close> of the handler and the
  later reading \<open>bcastMs\<close> made inside \<^verbatim>\<open>broadcastSyncState\<close>.
\<close>

definition handlePlay ::
  "StreamGateway \<Rightarrow> js_value \<Rightarrow> int \<Rightarrow> int \<Rightarrow> StreamGateway \<times> emission list" where
  "handlePlay g time nowMs bcastMs =
     (let s1 = checkpoint (state g) time nowMs;
          s2 = s1\<lparr>isPlaying := True\<rparr>;
          s3 = s2\<lparr>updatedAtMs := nowMs\<rparr>;
          g' = g\<lparr>state := s3\<rparr>
      in (g', broadcastSyncState g' bcastMs))"

definition handlePause ::
  "StreamGateway \<Rightarrow> js_value \<Rightarrow> int \<Rightarrow> int \<Rightarrow> StreamGateway \<times> emission list" where
  "handlePause g time nowMs bcastMs =
     (let s1 = checkpoint (state g) time nowMs;
          s2 = s1\<lparr>isPlaying := False\<rparr>;
          s3 = s2\<lparr>updatedAtMs := nowMs\<rparr>;
          g' = g\<lparr>state := s3\<rparr>
      in (g', broadcastSyncState g' bcastMs))"

definition handleSeek ::
  "StreamGateway \<Rightarrow> js_value \<Rightarrow> int \<Rightarrow> int \<Rightarrow> StreamGateway \<times> emission list" where
  "handleSeek g time nowMs bcastMs =
     (case time of
        JNumber (Finite t) \<Rightarrow>
          (let s1 = (state g)\<lparr>currentTime := Finite (max 0 t)\<rparr>;
               s2 = s1\<lparr>updatedAtMs := nowMs\<rparr>;
               g' = g\<lparr>state := s2\<rparr>
           in (g', broadcastSyncState g' bcastMs))
      | _ \<Rightarrow> (g, []))"

definition handleSync :: "StreamGateway \<Rightarrow> socket \<Rightarrow> int \<Rightarrow> StreamGateway \<times> emission list" where
  "handleSync g client nowMs = (g, [ToClient client (getSyncState (state g) nowMs)])"

text \<open>
  The events the gateway reacts to, each with the clock readings it makes. \<open>Tick\<close> is
  the timer of \<^verbatim>\<open>afterInit\<close>.
\<close>

datatype event =
    Play js_value int int
  | Pause js_value int int
  | Seek js_value int int
  | Sync socket int
  | Tick int

fun step :: "StreamGateway \<Rightarrow> event \<Rightarrow> StreamGateway \<times> emission list" where
  "step g (Play v n b) = handlePlay g v n b"
| "step g (Pause v n b) = handlePause g v n b"
| "step g (Seek v n b) = handleSeek g v n b"
| "step g (Sync c n) = handleSync g c n"
| "step g (Tick n) = (g, broadcastSyncState g n)"

fun run :: "StreamGateway \<Rightarrow> event list \<Rightarrow> StreamGateway" where
  "run g [] = g"
| "run g (e # es) = run (fst (step g e)) es"

text \<open>The invariant of the data model: the stored position is finite and not negative.\<close>

fun validTime :: "number \<Rightarrow> bool" where
  "validTime (Finite r) = (0 \<le> r)"
| "validTime n = False"

section \<open>The media endpoint (stream.controller.ts)\<close>

text \<open>
  Strings are lists of 8-bit characters, which is what a header value is once Node has
  decoded it. Of the white space that \<^verbatim>\<open>parseInt\<close> skips, these seven characters are
  in that range: TAB, LF, VT, FF, CR, SPACE and NBSP.
\<close>

definition isStrWhiteSpaceChar :: "char \<Rightarrow> bool" where
  "isStrWhiteSpaceChar c =
     (c \<in> {CHR 0x09, CHR 0x0A, CHR 0x0B, CHR 0x0C, CHR 0x0D, CHR 0x20, CHR 0xA0})"

definition isDigit :: "char \<Rightarrow> bool" where
  "isDigit c = (c \<in> set ''0123456789'')"

text \<open>The value of a decimal digit: its place among the ten digits.\<close>

definition digitValue :: "char \<Rightarrow> nat" where
  "digitValue c = length (takeWhile (\<lambda>d. d \<noteq> c) ''0123456789'')"

definition digitsValue :: "string \<Rightarrow> nat" where
  "digitsValue ds = foldl (\<lambda>acc c. 10 * acc + digitValue c) 0 ds"

text \<open>
  \<^verbatim>\<open>Number.parseInt(s, 10)\<close>: skip leading white space, take an optional sign, then
  the longest run of decimal digits; no digit gives NaN, which is \<open>None\<close> here. The
  result is an unbounded integer: the rounding of integers beyond \<open>2^53\<close> is not part
  of the model.
\<close>

definition parseInt :: "string \<Rightarrow> int option" where
  "parseInt inputString =
     (let S = dropWhile isStrWhiteSpaceChar inputString;
          sign = (if S \<noteq> [] \<and> hd S = CHR ''-'' then - 1 else (1::int));
          S1 = (if S \<noteq> [] \<and> (hd S = CHR ''+'' \<or> hd S = CHR ''-'') then tl S else S);
          Z = takeWhile isDigit S1
      in if Z = [] then None else Some (sign * int (digitsValue Z)))"

text \<open>
  The argument of \<^verbatim>\<open>parseInt\<close> may be \<^verbatim>\<open>undefined\<close> (a missing array element), which is
  converted to the string \<^verbatim>\<open>"undefined"\<close> first.
\<close>

definition parseIntU :: "string option \<Rightarrow> int option" where
  "parseIntU v = (case v of None \<Rightarrow> parseInt ''undefined'' | Some s \<Rightarrow> parseInt s)"

text \<open>\<^verbatim>\<open>s.replace(pat, rep)\<close> with a string pattern replaces its first occurrence.\<close>

fun replace_first :: "string \<Rightarrow> string \<Rightarrow> string \<Rightarrow> string" where
  "replace_first pat rep [] = (if pat = [] then rep else [])"
| "replace_first pat rep (c # cs) =
     (if prefix pat (c # cs) then rep @ drop (length pat) (c # cs)
      else c # replace_first pat rep cs)"

text \<open>\<^verbatim>\<open>s.split(sep)\<close> for a separator of one character.\<close>

fun split_on :: "char \<Rightarrow> string \<Rightarrow> string list" where
  "split_on sep [] = [[]]"
| "split_on sep (c # cs) =
     (if c = sep then [] # split_on sep cs
      else (case split_on sep cs of
              [] \<Rightarrow> [[c]]
            | p # ps \<Rightarrow> (c # p) # ps))"

text \<open>An array element, \<^verbatim>\<open>undefined\<close> beyond the end.\<close>

definition element :: "'a list \<Rightarrow> nat \<Rightarrow> 'a option" where
  "element xs i = (if i < length xs then Some (xs ! i) else None)"

text \<open>A number in a template string or a header value: decimal digits.\<close>

fun string_of_nat :: "nat \<Rightarrow> string" where
  "string_of_nat n =
     (if n < 10 then [''0123456789'' ! n]
      else string_of_nat (n div 10) @ [''0123456789'' ! (n mod 10)])"

declare string_of_nat.simps [simp del]

definition string_of_int :: "int \<Rightarrow> string" where
  "string_of_int i = (if i < 0 then CHR ''-'' # string_of_nat (nat (- i)) else string_of_nat (nat i))"

text \<open>
  A response: the status, the headers the controller sets (the framework's own are not
  listed), and the body.
\<close>

record Response =
  status :: nat
  headers :: "(string \<times> string) list"
  body :: string

definition corsHeaders :: "(string \<times> string) list" where
  "corsHeaders = [(''Access-Control-Allow-Origin'', ''*'')]"

text \<open>The three places that answer 416 are the same statements.\<close>

definition rangeNotSatisfiable :: "int \<Rightarrow> Response" where
  "rangeNotSatisfiable fileSize =
     \<lparr>status = 416,
      headers = [(''Access-Control-Allow-Origin'', ''*''),
                 (''Content-Range'', ''bytes */'' @ string_of_int fileSize)],
      body = []\<rparr>"

text \<open>
  Lines 50 to 73: the bounds \<open>(start, end)\<close> a header that starts with \<^verbatim>\<open>bytes=\<close>
  resolves to, or \<open>None\<close> where the suffix length does not parse.
\<close>

definition resolveRange :: "int \<Rightarrow> string \<Rightarrow> (int \<times> int) option" where
  "resolveRange fileSize rangeHeader =
     (let parts = split_on CHR ''-'' (replace_first ''bytes='' [] rangeHeader);
          startStr = element parts 0;
          endStr = element parts 1;
          start = parseIntU startStr;
          endB = parseIntU endStr
      in case start of
           None \<Rightarrow>
             (case parseIntU endStr of
                None \<Rightarrow> None
              | Some suffixLength \<Rightarrow> Some (max (fileSize - suffixLength) 0, fileSize - 1))
         | Some st \<Rightarrow>
             (case endB of
                None \<Rightarrow> Some (st, fileSize - 1)
              | Some en \<Rightarrow> Some (st, en)))"

text \<open>
  \<^verbatim>\<open>stream\<close>: \<open>file\<close> is the content of the media file (\<open>None\<close> where \<^verbatim>\<open>statSync\<close>
  throws), \<open>rangeHeader\<close> is \<^verbatim>\<open>req.headers.range\<close> (\<open>None\<close> for \<^verbatim>\<open>undefined\<close>). The test
  \<^verbatim>\<open>!range\<close> holds for \<^verbatim>\<open>undefined\<close> and for the empty string. The body of a 200 is the
  whole file; the body of a 206 is what \<^verbatim>\<open>createReadStream\<close> reads with the options
  \<^verbatim>\<open>{ start, end }\<close>, both inclusive.
\<close>

definition stream :: "string option \<Rightarrow> string option \<Rightarrow> Response" where
  "stream file rangeHeader =
     (case file of
        None \<Rightarrow> \<lparr>status = 404, headers = [], body = ''Video file not found.''\<rparr>
      | Some content \<Rightarrow>
          (let fileSize = int (length content);
               fullContent =
                 \<lparr>status = 200,
                  headers = corsHeaders @
                    [(''Content-Type'', ''video/mp4''),
                     (''Content-Length'', string_of_int fileSize),
                     (''Accept-Ranges'', ''bytes'')],
                  body = content\<rparr>
           in case rangeHeader of
                None \<Rightarrow> fullContent
              | Some rangeValue \<Rightarrow>
                  if rangeValue = [] then fullContent
                  else if \<not> prefix ''bytes='' rangeValue then rangeNotSatisfiable fileSize
                  else
                    (case resolveRange fileSize rangeValue of
                       None \<Rightarrow> rangeNotSatisfiable fileSize
                     | Some (start, endB) \<Rightarrow>
                         if start < 0 \<or> endB \<ge> fileSize \<or> start > endB
                         then rangeNotSatisfiable fileSize
                         else
                           (let chunkSize = endB - start + 1 in
                            \<lparr>status = 206,
                             headers = corsHeaders @
                               [(''Content-Range'',
                                   ''bytes '' @ string_of_int start @ ''-'' @ string_of_int endB
                                     @ ''/'' @ string_of_int fileSize),
                                (''Accept-Ranges'', ''bytes''),
                                (''Content-Length'', string_of_int chunkSize),
                                (''Content-Type'', ''video/mp4'')],
                             body = take (nat chunkSize) (drop (nat start) content)\<rparr>))))"

text \<open>The value of a header of a response.\<close>

definition header :: "Response \<Rightarrow> string \<Rightarrow> string option" where
  "header r name = map_of (headers r) name"

section \<open>The player hook (useStreamPlayer)\<close>

definition FORCE_SYNC_THRESHOLD_SECONDS :: real where
  "FORCE_SYNC_THRESHOLD_SECONDS = 1 / 10"

definition PLAYER_SYNC_CHECK_INTERVAL_MS :: int where
  "PLAYER_SYNC_CHECK_INTERVAL_MS = 2000"

text \<open>
  The properties of the \<^verbatim>\<open>HTMLVideoElement\<close> that the hook reads and writes. The
  position of a media element is a finite number. What the browser does on its own
  after an assignment (events, the \<^verbatim>\<open>seeking\<close> flag) is not part of the hook.
\<close>

record VideoElement =
  video_currentTime :: real
  paused :: bool
  seeking :: bool

text \<open>
  The record kept in \<^verbatim>\<open>lastSyncStateRef\<close>. \<^verbatim>\<open>handleSyncState\<close> is its only writer and
  stores \<^verbatim>\<open>currentTime\<close> after \<^verbatim>\<open>isFiniteNumber\<close> has accepted it, hence \<open>real\<close>;
  \<^verbatim>\<open>serverTimeMs\<close> is stored as it arrived.
\<close>

record LastSyncState =
  last_isPlaying :: bool
  last_currentTime :: real
  last_serverTimeMs :: js_value
  receivedAtMs :: int

text \<open>
  The refs of the hook: \<open>socketRef\<close> is \<open>None\<close> for \<^verbatim>\<open>null\<close> and otherwise holds
  \<^verbatim>\<open>socket.connected\<close>.
\<close>

record Player =
  socketRef :: "bool option"
  lastSyncStateRef :: "LastSyncState option"
  isScrubbingRef :: bool
  videoElementRef :: "VideoElement option"
  durationRef :: real

text \<open>What the hook sends to the server with \<^verbatim>\<open>socket.emit\<close>.\<close>

datatype command = EmitSync | EmitSeek real | EmitPlay real | EmitPause real

definition clamp :: "real \<Rightarrow> real \<Rightarrow> real \<Rightarrow> real" where
  "clamp v lo hi = min hi (max lo v)"

text \<open>
  \<^verbatim>\<open>opts?.broadcast ?? true\<close>: the option is \<open>None\<close> where it is not given.
\<close>

definition broadcastOpt :: "bool option \<Rightarrow> bool" where
  "broadcastOpt opts = (case opts of None \<Rightarrow> True | Some b \<Rightarrow> b)"

definition emit :: "Player \<Rightarrow> command \<Rightarrow> command list" where
  "emit p c = (case socketRef p of None \<Rightarrow> [] | Some isConnected \<Rightarrow> [c])"

definition seekTo :: "Player \<Rightarrow> real \<Rightarrow> bool option \<Rightarrow> Player \<times> command list" where
  "seekTo p time opts =
     (case videoElementRef p of
        None \<Rightarrow> (p, [])
      | Some video \<Rightarrow>
          (let clampedTime = clamp time 0 (if durationRef p \<noteq> 0 then durationRef p else time);
               p' = p\<lparr>videoElementRef := Some (video\<lparr>video_currentTime := clampedTime\<rparr>)\<rparr>
           in (p', if broadcastOpt opts then emit p' (EmitSeek clampedTime) else [])))"

definition pause :: "Player \<Rightarrow> bool option \<Rightarrow> Player \<times> command list" where
  "pause p opts =
     (case videoElementRef p of
        None \<Rightarrow> (p, [])
      | Some video \<Rightarrow>
          (let p' = p\<lparr>videoElementRef := Some (video\<lparr>paused := True\<rparr>)\<rparr>
           in (p', if broadcastOpt opts then emit p' (EmitPause (video_currentTime video)) else [])))"

text \<open>
  \<^verbatim>\<open>play\<close>: \<open>playOk\<close> says whether the promise of \<^verbatim>\<open>video.play()\<close> is fulfilled; where
  it is rejected the function returns at once.
\<close>

definition play :: "Player \<Rightarrow> bool option \<Rightarrow> bool \<Rightarrow> Player \<times> command list" where
  "play p opts playOk =
     (case videoElementRef p of
        None \<Rightarrow> (p, [])
      | Some video \<Rightarrow>
          if \<not> playOk then (p, [])
          else
            (let p' = p\<lparr>videoElementRef := Some (video\<lparr>paused := False\<rparr>)\<rparr>
             in (p', if broadcastOpt opts then emit p' (EmitPlay (video_currentTime video)) else [])))"

text \<open>
  The target position, the same expression in \<^verbatim>\<open>handleSyncState\<close> and in the interval
  callback: extrapolated only where the record is playing and \<^verbatim>\<open>serverTimeMs\<close> is a
  finite number.
\<close>

definition targetTime :: "bool \<Rightarrow> real \<Rightarrow> js_value \<Rightarrow> int \<Rightarrow> real" where
  "targetTime playing time serverTimeMs nowMs =
     (case serverTimeMs of
        JNumber (Finite st) \<Rightarrow>
          if playing then time + max 0 ((real_of_int nowMs - st) / 1000) else time
      | _ \<Rightarrow> time)"

definition videoPaused :: "Player \<Rightarrow> bool" where
  "videoPaused p = (case videoElementRef p of None \<Rightarrow> False | Some video \<Rightarrow> paused video)"

text \<open>
  The correction, the same statements at the end of \<^verbatim>\<open>handleSyncState\<close> and of the
  interval callback, reached only with a video element.
\<close>

definition reconcile :: "Player \<Rightarrow> bool \<Rightarrow> real \<Rightarrow> bool \<Rightarrow> Player \<times> command list" where
  "reconcile p playing target playOk =
     (case videoElementRef p of
        None \<Rightarrow> (p, [])
      | Some video \<Rightarrow>
          (let (p1, out1) =
                 (if \<not> seeking video then
                    (let driftSeconds = target - video_currentTime video in
                     if \<bar>driftSeconds\<bar> > FORCE_SYNC_THRESHOLD_SECONDS
                     then seekTo p target (Some False) else (p, []))
                  else (p, []));
               (p2, out2) =
                 (if playing \<and> videoPaused p1 then play p1 (Some False) playOk else (p1, []));
               (p3, out3) =
                 (if \<not> playing \<and> \<not> videoPaused p2 then pause p2 (Some False) else (p2, []))
           in (p3, out1 @ out2 @ out3)))"

text \<open>
  \<^verbatim>\<open>handleSyncState\<close>: \<open>recvMs\<close> is the clock reading stored as \<^verbatim>\<open>receivedAtMs\<close>,
  \<open>nowMs\<close> the later one used for the target.
\<close>

definition handleSyncState ::
  "Player \<Rightarrow> js_value \<Rightarrow> int \<Rightarrow> int \<Rightarrow> bool \<Rightarrow> Player \<times> command list" where
  "handleSyncState p msg recvMs nowMs playOk =
     (case msg of
        JObject props \<Rightarrow>
          (case (map_of props ''isPlaying'', map_of props ''currentTime'') of
             (Some (JBoolean playing), Some (JNumber (Finite time))) \<Rightarrow>
               (let serverTimeMs =
                      (case map_of props ''serverTimeMs'' of None \<Rightarrow> JUndefined | Some v \<Rightarrow> v);
                    p1 = p\<lparr>lastSyncStateRef :=
                           Some \<lparr>last_isPlaying = playing, last_currentTime = time,
                                 last_serverTimeMs = serverTimeMs, receivedAtMs = recvMs\<rparr>\<rparr>
                in case videoElementRef p1 of
                     None \<Rightarrow> (p1, [])
                   | Some video \<Rightarrow>
                       if isScrubbingRef p1 then (p1, [])
                       else reconcile p1 playing (targetTime playing time serverTimeMs nowMs) playOk)
           | _ \<Rightarrow> (p, []))
      | _ \<Rightarrow> (p, []))"

text \<open>The callback of the interval of the hook, every 2000 ms.\<close>

definition syncInterval :: "Player \<Rightarrow> int \<Rightarrow> bool \<Rightarrow> Player \<times> command list" where
  "syncInterval p nowMs playOk =
     (case (socketRef p, videoElementRef p) of
        (Some isConnected, Some video) \<Rightarrow>
          if \<not> isConnected then (p, [])
          else if isScrubbingRef p then (p, [])
          else
            (case lastSyncStateRef p of
               None \<Rightarrow> (p, [EmitSync])
             | Some lastState \<Rightarrow>
                 if nowMs - receivedAtMs lastState > PLAYER_SYNC_CHECK_INTERVAL_MS * 2
                 then (p, [EmitSync])
                 else
                   reconcile p (last_isPlaying lastState)
                     (targetTime (last_isPlaying lastState) (last_currentTime lastState)
                        (last_serverTimeMs lastState) nowMs)
                     playOk)
      | _ \<Rightarrow> (p, []))"

text \<open>The position of the local player.\<close>

definition localPosition :: "Player \<Rightarrow> real option" where
  "localPosition p = map_option video_currentTime (videoElementRef p)"

section \<open>Statements of the specification\<close>

text \<open>A decimal numeral, as it stands for \<open>start\<close>, \<open>end\<close> or \<open>suffixLength\<close> in a header.\<close>

definition isDigits :: "string \<Rightarrow> bool" where
  "isDigits s = (s \<noteq> [] \<and> list_all isDigit s)"

text \<open>
  The partial-content answer of the specification for the bounds \<open>start\<close> and \<open>endB\<close>:
  status 206, the four headers, and as body the bytes at the positions \<open>start\<close> to
  \<open>endB\<close>, both included.
\<close>

definition servesRange :: "Response \<Rightarrow> string \<Rightarrow> int \<Rightarrow> int \<Rightarrow> bool" where
  "servesRange r content start endB =
     (status r = 206
      \<and> header r ''Content-Range'' =
          Some (''bytes '' @ string_of_int start @ ''-'' @ string_of_int endB @ ''/''
                @ string_of_int (int (length content)))
      \<and> header r ''Accept-Ranges'' = Some ''bytes''
      \<and> header r ''Content-Length'' = Some (string_of_int (endB - start + 1))
      \<and> header r ''Content-Type'' = Some ''video/mp4''
      \<and> body r = map ((!) content) [nat start..<nat endB + 1])"

text \<open>
  The answer of the specification to a range that cannot be served: status 416 (which is
  no 5xx), the header \<^verbatim>\<open>Content-Range: bytes */<size>\<close>, and no body.
\<close>

definition notSatisfiable :: "Response \<Rightarrow> string \<Rightarrow> bool" where
  "notSatisfiable r content =
     (status r = 416
      \<and> header r ''Content-Range'' = Some (''bytes */'' @ string_of_int (int (length content)))
      \<and> body r = []
      \<and> status r < 500)"



section \<open>The clock model\<close>

lemma getEffectiveTime_nonneg: "0 \<le> getEffectiveTime s nowMs"
  by (simp add: getEffectiveTime_def Let_def)

text \<open>
  Claim C1. For a state whose stored position is a finite number \<open>t\<close> (the data model
  allows no other) and every clock reading: a state that is not playing has the
  effective time \<open>max 0 t\<close>; a playing state has
  \<open>max 0 (t + max 0 ((now - updatedAt) / 1000))\<close>, so that a reading at or before the
  checkpoint adds nothing and subtracts nothing.
\<close>

theorem getEffectiveTime_formula:
  assumes "currentTime s = Finite t"
  shows "getEffectiveTime s nowMs =
           (if isPlaying s
            then max 0 (t + max 0 (real_of_int (nowMs - updatedAtMs s) / 1000))
            else max 0 t)
         \<and> (nowMs \<le> updatedAtMs s \<longrightarrow> getEffectiveTime s nowMs = max 0 t)"
  using assms by (simp add: getEffectiveTime_def Let_def max_def)

theorem getEffectiveTime_formula_witness:
  "getEffectiveTime \<lparr>isPlaying = True, currentTime = Finite 10, updatedAtMs = 1000\<rparr> 4000 = 13
   \<and> getEffectiveTime \<lparr>isPlaying = True, currentTime = Finite 10, updatedAtMs = 1000\<rparr> 500 = 10
   \<and> getEffectiveTime \<lparr>isPlaying = False, currentTime = Finite (- 2), updatedAtMs = 1000\<rparr> 4000 = 0"
  using getEffectiveTime_formula [of "\<lparr>isPlaying = True, currentTime = Finite 10, updatedAtMs = 1000\<rparr>" 10 4000]
    getEffectiveTime_formula [of "\<lparr>isPlaying = True, currentTime = Finite 10, updatedAtMs = 1000\<rparr>" 10 500]
    getEffectiveTime_formula [of "\<lparr>isPlaying = False, currentTime = Finite (- 2), updatedAtMs = 1000\<rparr>" "- 2" 4000]
  by simp

text \<open>
  Claim C9. Committing at \<open>nowMs\<close> and then taking the snapshot at the same \<open>nowMs\<close>
  gives, as the position of the snapshot, the effective time of the state before the
  commit, for every state and every clock reading.
\<close>

theorem commit_then_snapshot:
  "sync_currentTime (getSyncState (commitTime s nowMs) nowMs) = getEffectiveTime s nowMs"
proof -
  have nonneg: "0 \<le> getEffectiveTime s nowMs"
    by (rule getEffectiveTime_nonneg)
  then show ?thesis
    by (simp add: getSyncState_def commitTime_def Let_def getEffectiveTime_def [of "_\<lparr>currentTime := _, updatedAtMs := _\<rparr>"])
qed

section \<open>The handlers\<close>

lemma checkpoint_finite:
  "checkpoint s (JNumber (Finite t)) nowMs = s\<lparr>currentTime := Finite (max 0 t), updatedAtMs := nowMs\<rparr>"
  by (simp add: Let_def)

lemma checkpoint_other:
  "\<not> isFiniteNumber v \<Longrightarrow>
   checkpoint s v nowMs = s\<lparr>currentTime := Finite (getEffectiveTime s nowMs), updatedAtMs := nowMs\<rparr>"
  by (cases "(s, v, nowMs)" rule: checkpoint.cases) (simp_all add: commitTime_def Let_def)

text \<open>
  Claim C4. With the server attached, a play event whose payload is the finite number
  \<open>t\<close> leaves the state \<open>(True, max 0 t, now)\<close>, and any other payload leaves
  \<open>(True, effective time of the old state at now, now)\<close>; the handler then broadcasts
  one snapshot of that state to all sockets. A pause event does the same with
  \<open>isPlaying = False\<close>.
\<close>

theorem handlePlay_handlePause:
  assumes "server g"
  shows "(v = JNumber (Finite t) \<longrightarrow>
            handlePlay g v nowMs bcastMs =
              (g\<lparr>state := \<lparr>isPlaying = True, currentTime = Finite (max 0 t), updatedAtMs = nowMs\<rparr>\<rparr>,
               [ToAll (getSyncState \<lparr>isPlaying = True, currentTime = Finite (max 0 t), updatedAtMs = nowMs\<rparr> bcastMs)])
          \<and> handlePause g v nowMs bcastMs =
              (g\<lparr>state := \<lparr>isPlaying = False, currentTime = Finite (max 0 t), updatedAtMs = nowMs\<rparr>\<rparr>,
               [ToAll (getSyncState \<lparr>isPlaying = False, currentTime = Finite (max 0 t), updatedAtMs = nowMs\<rparr> bcastMs)]))
       \<and> (\<not> isFiniteNumber v \<longrightarrow>
            handlePlay g v nowMs bcastMs =
              (g\<lparr>state := \<lparr>isPlaying = True, currentTime = Finite (getEffectiveTime (state g) nowMs), updatedAtMs = nowMs\<rparr>\<rparr>,
               [ToAll (getSyncState \<lparr>isPlaying = True, currentTime = Finite (getEffectiveTime (state g) nowMs), updatedAtMs = nowMs\<rparr> bcastMs)])
          \<and> handlePause g v nowMs bcastMs =
              (g\<lparr>state := \<lparr>isPlaying = False, currentTime = Finite (getEffectiveTime (state g) nowMs), updatedAtMs = nowMs\<rparr>\<rparr>,
               [ToAll (getSyncState \<lparr>isPlaying = False, currentTime = Finite (getEffectiveTime (state g) nowMs), updatedAtMs = nowMs\<rparr> bcastMs)]))"
  using assms
  by (cases "state g")
     (simp add: handlePlay_def handlePause_def broadcastSyncState_def checkpoint_other Let_def)

theorem handlePlay_handlePause_witness:
  "handlePlay \<lparr>state = \<lparr>isPlaying = False, currentTime = Finite 5, updatedAtMs = 0\<rparr>, server = True\<rparr>
      (JNumber (Finite (- 3))) 1000 1001 =
     (\<lparr>state = \<lparr>isPlaying = True, currentTime = Finite 0, updatedAtMs = 1000\<rparr>, server = True\<rparr>,
      [ToAll \<lparr>sync_isPlaying = True, sync_currentTime = 1 / 1000, sync_serverTimeMs = 1001\<rparr>])
   \<and> handlePause \<lparr>state = \<lparr>isPlaying = True, currentTime = Finite 5, updatedAtMs = 0\<rparr>, server = True\<rparr>
      (JNumber NaN) 2000 2000 =
     (\<lparr>state = \<lparr>isPlaying = False, currentTime = Finite 7, updatedAtMs = 2000\<rparr>, server = True\<rparr>,
      [ToAll \<lparr>sync_isPlaying = False, sync_currentTime = 7, sync_serverTimeMs = 2000\<rparr>])"
  using
    handlePlay_handlePause [of "\<lparr>state = \<lparr>isPlaying = False, currentTime = Finite 5, updatedAtMs = 0\<rparr>, server = True\<rparr>"
      "JNumber (Finite (- 3))" "- 3" 1000 1001]
    handlePlay_handlePause [of "\<lparr>state = \<lparr>isPlaying = True, currentTime = Finite 5, updatedAtMs = 0\<rparr>, server = True\<rparr>"
      "JNumber NaN" 0 2000 2000]
  by (simp add: getSyncState_def getEffectiveTime_def)

text \<open>
  Claim C5. A seek event whose payload is not a finite number changes nothing and sends
  nothing. A finite payload \<open>t\<close> stores \<open>max 0 t\<close> and the clock reading, keeps
  \<open>isPlaying\<close>, and (with the server attached) broadcasts one snapshot.
\<close>

theorem handleSeek_cases:
  "(\<not> isFiniteNumber v \<longrightarrow> handleSeek g v nowMs bcastMs = (g, []))
   \<and> fst (handleSeek g (JNumber (Finite t)) nowMs bcastMs) =
        g\<lparr>state := \<lparr>isPlaying = isPlaying (state g), currentTime = Finite (max 0 t), updatedAtMs = nowMs\<rparr>\<rparr>
   \<and> (server g \<longrightarrow>
        snd (handleSeek g (JNumber (Finite t)) nowMs bcastMs) =
          [ToAll (getSyncState
             \<lparr>isPlaying = isPlaying (state g), currentTime = Finite (max 0 t), updatedAtMs = nowMs\<rparr> bcastMs)])"
proof -
  have rejected: "handleSeek g v nowMs bcastMs = (g, [])" if "\<not> isFiniteNumber v"
    using that by (cases v rule: isFiniteNumber.cases) (simp_all add: handleSeek_def)
  have accepted: "handleSeek g (JNumber (Finite t)) nowMs bcastMs =
      (g\<lparr>state := \<lparr>isPlaying = isPlaying (state g), currentTime = Finite (max 0 t), updatedAtMs = nowMs\<rparr>\<rparr>,
       broadcastSyncState
         (g\<lparr>state := \<lparr>isPlaying = isPlaying (state g), currentTime = Finite (max 0 t), updatedAtMs = nowMs\<rparr>\<rparr>)
         bcastMs)"
    by (cases "state g") (simp add: handleSeek_def Let_def)
  show ?thesis
    by (intro conjI impI) (simp_all add: rejected accepted broadcastSyncState_def)
qed

theorem handleSeek_cases_witness:
  "handleSeek \<lparr>state = \<lparr>isPlaying = True, currentTime = Finite 5, updatedAtMs = 0\<rparr>, server = True\<rparr>
      (JNumber PosInfinity) 1000 1500 =
     (\<lparr>state = \<lparr>isPlaying = True, currentTime = Finite 5, updatedAtMs = 0\<rparr>, server = True\<rparr>, [])
   \<and> handleSeek \<lparr>state = \<lparr>isPlaying = True, currentTime = Finite 5, updatedAtMs = 0\<rparr>, server = True\<rparr>
      (JNumber (Finite 42)) 1000 1500 =
     (\<lparr>state = \<lparr>isPlaying = True, currentTime = Finite 42, updatedAtMs = 1000\<rparr>, server = True\<rparr>,
      [ToAll \<lparr>sync_isPlaying = True, sync_currentTime = 42 + 1 / 2, sync_serverTimeMs = 1500\<rparr>])"
  using
    handleSeek_cases [where v = "JNumber PosInfinity" and t = 42 and nowMs = 1000 and bcastMs = 1500
      and g = "\<lparr>state = \<lparr>isPlaying = True, currentTime = Finite 5, updatedAtMs = 0\<rparr>, server = True\<rparr>"]
  by (simp add: getSyncState_def getEffectiveTime_def prod_eq_iff)

section \<open>The invariant of the session state\<close>

lemma checkpoint_valid: "validTime (currentTime (checkpoint s v nowMs))"
  by (cases "(s, v, nowMs)" rule: checkpoint.cases)
     (simp_all add: commitTime_def Let_def getEffectiveTime_nonneg)

lemma step_valid:
  "validTime (currentTime (state g)) \<Longrightarrow> validTime (currentTime (state (fst (step g e))))"
proof (cases e)
  case (Seek v n b)
  assume "validTime (currentTime (state g))"
  then show ?thesis
    unfolding Seek by (cases v rule: isFiniteNumber.cases) (simp_all add: handleSeek_def Let_def)
qed (simp_all add: handlePlay_def handlePause_def handleSync_def Let_def checkpoint_valid)

lemma run_valid:
  "validTime (currentTime (state g)) \<Longrightarrow> validTime (currentTime (state (run g es)))"
proof (induction es arbitrary: g)
  case Nil
  then show ?case by simp
next
  case (Cons e es)
  from Cons.prems have "validTime (currentTime (state (fst (step g e))))"
    by (rule step_valid)
  then show ?case
    by (simp add: Cons.IH)
qed

text \<open>
  Claim C7. From the initial state, after every sequence of play, pause, seek and sync
  events and timer ticks, with any payloads and any clock readings, the stored position
  is a finite number and is not negative.
\<close>

theorem currentTime_always_valid:
  "validTime (currentTime (state (run \<lparr>state = initialState startMs, server = srv\<rparr> es)))"
  by (rule run_valid) (simp add: initialState_def)

text \<open>
  On every state the gateway can reach, the stored position is a finite number \<open>t\<close>
  and the effective time is given by the formula of the clock model.
\<close>

lemma reachable_effectiveTime:
  assumes "s = state (run \<lparr>state = initialState startMs, server = srv\<rparr> es)"
  shows "\<exists>t. currentTime s = Finite t \<and> 0 \<le> t
           \<and> getEffectiveTime s nowMs =
               (if isPlaying s
                then max 0 (t + max 0 (real_of_int (nowMs - updatedAtMs s) / 1000))
                else max 0 t)"
proof -
  have "validTime (currentTime s)"
    unfolding assms by (rule run_valid) (simp add: initialState_def)
  then obtain t where t: "currentTime s = Finite t" "0 \<le> t"
    by (cases "currentTime s") simp_all
  then show ?thesis
    by (simp add: getEffectiveTime_def Let_def)
qed

section \<open>The media endpoint: strings and parsing\<close>

lemma replace_first_prefix: "replace_first pat rep (pat @ s) = rep @ s"
proof (cases "pat @ s")
  case Nil
  then show ?thesis by simp
next
  case (Cons c cs)
  have "prefix pat (pat @ s)" by simp
  then have "replace_first pat rep (pat @ s) = rep @ drop (length pat) (pat @ s)"
    unfolding Cons by simp
  then show ?thesis by simp
qed

lemma split_on_no_sep: "sep \<notin> set a \<Longrightarrow> split_on sep a = [a]"
  by (induction a) auto

lemma split_on_first: "sep \<notin> set a \<Longrightarrow> split_on sep (a @ sep # rest) = a # split_on sep rest"
  by (induction a) auto

lemma split_on_nonempty: "split_on sep s \<noteq> []"
  by (induction s) (auto split: list.splits)

lemma digit_not_dash: "isDigit c \<Longrightarrow> c \<noteq> CHR ''-''"
  by (auto simp: isDigit_def)

lemma isDigits_no_dash: "isDigits s \<Longrightarrow> CHR ''-'' \<notin> set s"
  by (auto simp: isDigits_def list_all_iff dest: digit_not_dash)

lemma parseInt_empty: "parseInt [] = None"
  by (simp add: parseInt_def)

lemma parseInt_undefined: "parseIntU None = None"
  by (simp add: parseIntU_def parseInt_def isStrWhiteSpaceChar_def isDigit_def)

lemma parseInt_digits: "isDigits s \<Longrightarrow> parseInt s = Some (int (digitsValue s))"
proof -
  assume d: "isDigits s"
  then obtain c cs where s: "s = c # cs" and c: "isDigit c" and all: "list_all isDigit (c # cs)"
    by (cases s) (auto simp: isDigits_def)
  from c have nows: "\<not> isStrWhiteSpaceChar c" and nosign: "c \<noteq> CHR ''-''" "c \<noteq> CHR ''+''"
    by (auto simp: isDigit_def isStrWhiteSpaceChar_def)
  from all have tw: "takeWhile isDigit (c # cs) = c # cs"
    by (simp add: list_all_iff)
  have "dropWhile isStrWhiteSpaceChar s = c # cs"
    using nows by (simp add: s)
  then show ?thesis
    using nosign by (simp add: parseInt_def Let_def tw del: takeWhile.simps) (simp add: s)
qed

lemma parseInt_nonneg:
  assumes "CHR ''-'' \<notin> set s" and "parseInt s = Some v"
  shows "0 \<le> v"
proof -
  let ?S = "dropWhile isStrWhiteSpaceChar s"
  have "set ?S \<subseteq> set s" by (rule set_dropWhileD[THEN subsetI]) 
  with assms(1) have "?S = [] \<or> hd ?S \<noteq> CHR ''-''"
    by (cases ?S) auto
  with assms(2) show ?thesis
    by (auto simp: parseInt_def Let_def split: if_splits)
qed

lemma slice_nth:
  "m + n \<le> length xs \<Longrightarrow> take n (drop m xs) = map ((!) xs) [m..<m + n]"
  by (rule nth_equalityI) auto


section \<open>The media endpoint: responses\<close>

lemma resolveRange_bytes:
  "resolveRange n (''bytes='' @ spec) =
     (case parseIntU (element (split_on CHR ''-'' spec) 0) of
        None \<Rightarrow>
          (case parseIntU (element (split_on CHR ''-'' spec) 1) of
             None \<Rightarrow> None
           | Some k \<Rightarrow> Some (max (n - k) 0, n - 1))
      | Some st \<Rightarrow>
          (case parseIntU (element (split_on CHR ''-'' spec) 1) of
             None \<Rightarrow> Some (st, n - 1)
           | Some en \<Rightarrow> Some (st, en)))"
  by (simp only: resolveRange_def replace_first_prefix append_Nil Let_def)

lemma resolveRange_two_parts:
  assumes "CHR ''-'' \<notin> set a" and "CHR ''-'' \<notin> set b"
  shows "resolveRange n (''bytes='' @ a @ CHR ''-'' # b) =
     (case parseInt a of
        None \<Rightarrow> (case parseInt b of None \<Rightarrow> None | Some k \<Rightarrow> Some (max (n - k) 0, n - 1))
      | Some st \<Rightarrow> (case parseInt b of None \<Rightarrow> Some (st, n - 1) | Some en \<Rightarrow> Some (st, en)))"
proof -
  have sp: "split_on CHR ''-'' (a @ CHR ''-'' # b) = [a, b]"
    using assms by (simp add: split_on_first split_on_no_sep)
  have e0: "parseIntU (element [a, b] 0) = parseInt a"
    and e1: "parseIntU (element [a, b] 1) = parseInt b"
    by (simp_all add: element_def parseIntU_def)
  show ?thesis
    by (simp only: resolveRange_bytes sp e0 e1)
qed

lemma resolveRange_one_part:
  assumes "CHR ''-'' \<notin> set a"
  shows "resolveRange n (''bytes='' @ a) =
     (case parseInt a of None \<Rightarrow> None | Some st \<Rightarrow> Some (st, n - 1))"
proof -
  have sp: "split_on CHR ''-'' a = [a]"
    using assms by (rule split_on_no_sep)
  have e0: "parseIntU (element [a] 0) = parseInt a"
    and e1: "parseIntU (element [a] 1) = None"
    by (simp_all add: element_def parseIntU_def parseInt_undefined [unfolded parseIntU_def, simplified])
  show ?thesis
    by (simp only: resolveRange_bytes sp e0 e1 option.case)
qed

lemma stream_satisfiable:
  assumes pre: "prefix ''bytes='' r"
    and res: "resolveRange (int (length content)) r = Some (s, e)"
    and bounds: "0 \<le> s" "s \<le> e" "e < int (length content)"
  shows "servesRange (stream (Some content) (Some r)) content s e"
proof -
  from pre have ne: "r \<noteq> []" by auto
  have sl: "take (nat (e - s + 1)) (drop (nat s) content) = map ((!) content) [nat s..<nat e + 1]"
  proof -
    have "nat s + nat (e - s + 1) \<le> length content" using bounds by linarith
    then have "take (nat (e - s + 1)) (drop (nat s) content)
               = map ((!) content) [nat s..<nat s + nat (e - s + 1)]"
      by (rule slice_nth)
    moreover have "nat s + nat (e - s + 1) = nat e + 1" using bounds by linarith
    ultimately show ?thesis by simp
  qed
  have "stream (Some content) (Some r) =
        \<lparr>status = 206,
         headers = corsHeaders @
           [(''Content-Range'',
               ''bytes '' @ string_of_int s @ ''-'' @ string_of_int e
                 @ ''/'' @ string_of_int (int (length content))),
            (''Accept-Ranges'', ''bytes''),
            (''Content-Length'', string_of_int (e - s + 1)),
            (''Content-Type'', ''video/mp4'')],
         body = take (nat (e - s + 1)) (drop (nat s) content)\<rparr>"
    using pre ne res bounds by (simp add: stream_def Let_def)
  then show ?thesis
    by (simp add: servesRange_def header_def corsHeaders_def sl)
qed

lemma stream_unsatisfiable:
  assumes pre: "prefix ''bytes='' r"
    and res: "resolveRange (int (length content)) r = None
              \<or> (\<exists>s e. resolveRange (int (length content)) r = Some (s, e)
                         \<and> (s < 0 \<or> e < s \<or> int (length content) \<le> e))"
  shows "stream (Some content) (Some r) = rangeNotSatisfiable (int (length content))"
proof -
  from pre have ne: "r \<noteq> []" by auto
  from res show ?thesis
    using pre ne by (auto simp: stream_def Let_def)
qed

lemma two_parts_unsatisfiable:
  assumes "CHR ''-'' \<notin> set a" and "CHR ''-'' \<notin> set b"
    and "(case parseInt a of
            None \<Rightarrow> (case parseInt b of
                        None \<Rightarrow> True
                      | Some k \<Rightarrow> \<not> (max (int (length content) - k) 0 \<le> int (length content) - 1))
          | Some s \<Rightarrow> (case parseInt b of
                        None \<Rightarrow> \<not> (0 \<le> s \<and> s \<le> int (length content) - 1)
                      | Some e \<Rightarrow> \<not> (0 \<le> s \<and> s \<le> e \<and> e < int (length content))))"
  shows "stream (Some content) (Some (''bytes='' @ a @ CHR ''-'' # b))
           = rangeNotSatisfiable (int (length content))"
proof -
  let ?n = "int (length content)"
  have p: "prefix ''bytes='' (''bytes='' @ a @ CHR ''-'' # b)"
    by (rule prefixI) simp
  have "resolveRange ?n (''bytes='' @ a @ CHR ''-'' # b) = None
        \<or> (\<exists>s e. resolveRange ?n (''bytes='' @ a @ CHR ''-'' # b) = Some (s, e)
                  \<and> (s < 0 \<or> e < s \<or> ?n \<le> e))"
    using assms(3)
    by (simp only: resolveRange_two_parts [OF assms(1,2)]) (auto split: option.splits)
  with p show ?thesis
    by (rule stream_unsatisfiable)
qed

lemma rangeNotSatisfiable_ok:
  "r = rangeNotSatisfiable (int (length content)) \<Longrightarrow> notSatisfiable r content"
  by (simp add: notSatisfiable_def rangeNotSatisfiable_def header_def)

text \<open>
  Claim C2. Let \<open>a\<close> and \<open>b\<close> be decimal numerals and the file exist. For each of the
  headers \<^verbatim>\<open>bytes=a-b\<close>, \<^verbatim>\<open>bytes=a-\<close> (end taken as size - 1) and \<^verbatim>\<open>bytes=-b\<close>
  (start taken as \<open>max (size - b) 0\<close>, end as size - 1): if the resolved bounds satisfy
  \<open>0 \<le> start \<le> end < size\<close>, the answer is 206 with the headers Content-Range,
  Accept-Ranges, Content-Length and Content-Type of the specification, and its body is
  the bytes of the file at the positions start to end, both included.
\<close>

theorem range_request_served:
  assumes "isDigits a" and "isDigits b"
  shows "(let s = int (digitsValue a); e = int (digitsValue b) in
            s \<le> e \<and> e < int (length content) \<longrightarrow>
            servesRange (stream (Some content) (Some (''bytes='' @ a @ ''-'' @ b))) content s e)
       \<and> (let s = int (digitsValue a); e = int (length content) - 1 in
            s \<le> e \<longrightarrow>
            servesRange (stream (Some content) (Some (''bytes='' @ a @ ''-''))) content s e)
       \<and> (let s = max (int (length content) - int (digitsValue b)) 0;
               e = int (length content) - 1 in
            s \<le> e \<longrightarrow>
            servesRange (stream (Some content) (Some (''bytes=-'' @ b))) content s e)"
proof -
  let ?n = "int (length content)"
  have da: "CHR ''-'' \<notin> set a" and db: "CHR ''-'' \<notin> set b"
    using assms by (simp_all add: isDigits_no_dash)
  have pa: "parseInt a = Some (int (digitsValue a))" and pb: "parseInt b = Some (int (digitsValue b))"
    using assms by (simp_all add: parseInt_digits)
  have r1: "resolveRange ?n (''bytes='' @ a @ CHR ''-'' # b) = Some (int (digitsValue a), int (digitsValue b))"
    by (simp add: resolveRange_two_parts [OF da db] pa pb del: append.simps)
  have r2: "resolveRange ?n (''bytes='' @ a @ CHR ''-'' # []) = Some (int (digitsValue a), ?n - 1)"
    by (simp add: resolveRange_two_parts [OF da] pa parseInt_empty del: append.simps)
  have r3: "resolveRange ?n (''bytes='' @ [] @ CHR ''-'' # b) = Some (max (?n - int (digitsValue b)) 0, ?n - 1)"
    by (simp add: resolveRange_two_parts [OF _ db] pb parseInt_empty del: append.simps)
  have p: "prefix ''bytes='' (''bytes='' @ x)" for x :: string
    by (rule prefixI) simp
  have c1: "servesRange (stream (Some content) (Some (''bytes='' @ a @ CHR ''-'' # b))) content
              (int (digitsValue a)) (int (digitsValue b))"
    if "int (digitsValue a) \<le> int (digitsValue b)" "int (digitsValue b) < ?n"
    using p r1 _ that by (rule stream_satisfiable) simp
  have c2: "servesRange (stream (Some content) (Some (''bytes='' @ a @ CHR ''-'' # []))) content
              (int (digitsValue a)) (?n - 1)"
    if "int (digitsValue a) \<le> ?n - 1"
    using p r2 _ that by (rule stream_satisfiable) simp_all
  have c3: "servesRange (stream (Some content) (Some (''bytes='' @ [] @ CHR ''-'' # b))) content
              (max (?n - int (digitsValue b)) 0) (?n - 1)"
    if "max (?n - int (digitsValue b)) 0 \<le> ?n - 1"
    using p r3 _ that by (rule stream_satisfiable) simp_all
  show ?thesis
    using c1 c2 c3 by (simp add: Let_def)
qed


theorem range_request_served_witness:
  "servesRange (stream (Some ''0123456789'') (Some ''bytes=2-5'')) ''0123456789'' 2 5
   \<and> body (stream (Some ''0123456789'') (Some ''bytes=2-5'')) = ''2345''
   \<and> servesRange (stream (Some ''0123456789'') (Some ''bytes=2-'')) ''0123456789'' 2 9
   \<and> servesRange (stream (Some ''0123456789'') (Some ''bytes=-5'')) ''0123456789'' 5 9
   \<and> header (stream (Some ''0123456789'') (Some ''bytes=-5'')) ''Content-Range'' = Some ''bytes 5-9/10''"
proof -
  have d: "isDigits ''2''" "isDigits ''5''"
    by (simp_all add: isDigits_def isDigit_def)
  have v: "digitsValue ''2'' = 2" "digitsValue ''5'' = 5"
    by (simp_all add: digitsValue_def digitValue_def)
  have "servesRange (stream (Some ''0123456789'') (Some ''bytes=2-5'')) ''0123456789'' 2 5
   \<and> servesRange (stream (Some ''0123456789'') (Some ''bytes=2-'')) ''0123456789'' 2 9
   \<and> servesRange (stream (Some ''0123456789'') (Some ''bytes=-5'')) ''0123456789'' 5 9"
    using range_request_served [OF d, of "''0123456789''"] by (simp add: v Let_def)
  moreover have "body (stream (Some ''0123456789'') (Some ''bytes=2-5'')) = ''2345''"
    by code_simp
  moreover have "header (stream (Some ''0123456789'') (Some ''bytes=-5'')) ''Content-Range'' = Some ''bytes 5-9/10''"
    by code_simp
  ultimately show ?thesis by blast
qed

text \<open>
  Claim C3 fails for one header: the empty Range header does not start with
  \<^verbatim>\<open>bytes=\<close>, and the answer is 200 with the whole file, because the test
  \<^verbatim>\<open>!range\<close> takes the empty string for a missing header.
\<close>

theorem empty_range_header_counterexample:
  "\<not> prefix ''bytes='' []
   \<and> status (stream (Some ''0123456789'') (Some [])) = 200
   \<and> body (stream (Some ''0123456789'') (Some [])) = ''0123456789''"
  by (simp add: stream_def Let_def)

text \<open>
  Claim C3, amended. On an existing file the answer is 416 with
  \<^verbatim>\<open>Content-Range: bytes */<size>\<close> and an empty body (and so no 5xx) for each of these
  headers, where \<open>a\<close> and \<open>b\<close> hold no \<^verbatim>\<open>-\<close>: a header that is not empty and does not
  start with \<^verbatim>\<open>bytes=\<close>; \<^verbatim>\<open>bytes=a\<close> where \<open>a\<close> does not parse; \<^verbatim>\<open>bytes=a-b\<close> where
  neither part parses, and so the suffix form \<^verbatim>\<open>bytes=-b\<close> whose \<open>b\<close> does not parse;
  \<^verbatim>\<open>bytes=a-b\<close> where only \<open>b\<close> parses, to \<open>k\<close>, and the bounds \<open>max (size - k) 0\<close> and
  \<open>size - 1\<close> are inverted; \<^verbatim>\<open>bytes=a-b\<close> where only \<open>a\<close> parses, to \<open>s\<close>, and \<open>s\<close> is
  not below the size; \<^verbatim>\<open>bytes=a-b\<close> where the parts parse to \<open>s\<close> and \<open>e\<close> and
  \<open>0 \<le> s \<le> e < size\<close> fails (inverted or out of bounds). In particular, for decimal
  numerals \<open>a\<close> and \<open>b\<close>: \<^verbatim>\<open>bytes=a-b\<close> unless \<open>a \<le> b < size\<close>, \<^verbatim>\<open>bytes=a-\<close> unless
  \<open>a < size\<close>, and \<^verbatim>\<open>bytes=-b\<close> unless \<open>max (size - b) 0 \<le> size - 1\<close>.
\<close>

theorem unsatisfiable_range_416:
  assumes "r \<noteq> []" and "CHR ''-'' \<notin> set a" and "CHR ''-'' \<notin> set b"
  shows "(\<not> prefix ''bytes='' r \<longrightarrow> notSatisfiable (stream (Some content) (Some r)) content)
       \<and> (parseInt a = None \<longrightarrow>
            notSatisfiable (stream (Some content) (Some (''bytes='' @ a))) content)
       \<and> (parseInt a = None \<and> parseInt b = None \<longrightarrow>
            notSatisfiable (stream (Some content) (Some (''bytes='' @ a @ ''-'' @ b))) content)
       \<and> (parseInt b = None \<longrightarrow>
            notSatisfiable (stream (Some content) (Some (''bytes=-'' @ b))) content)
       \<and> (parseInt a = None \<and> parseInt b = Some k
            \<and> \<not> (max (int (length content) - k) 0 \<le> int (length content) - 1) \<longrightarrow>
            notSatisfiable (stream (Some content) (Some (''bytes='' @ a @ ''-'' @ b))) content)
       \<and> (parseInt a = Some s \<and> parseInt b = None
            \<and> \<not> (0 \<le> s \<and> s \<le> int (length content) - 1) \<longrightarrow>
            notSatisfiable (stream (Some content) (Some (''bytes='' @ a @ ''-'' @ b))) content)
       \<and> (parseInt a = Some s \<and> parseInt b = Some e
            \<and> \<not> (0 \<le> s \<and> s \<le> e \<and> e < int (length content)) \<longrightarrow>
            notSatisfiable (stream (Some content) (Some (''bytes='' @ a @ ''-'' @ b))) content)
       \<and> (isDigits a \<and> isDigits b
            \<and> \<not> (int (digitsValue a) \<le> int (digitsValue b)
                   \<and> int (digitsValue b) < int (length content)) \<longrightarrow>
            notSatisfiable (stream (Some content) (Some (''bytes='' @ a @ ''-'' @ b))) content)
       \<and> (isDigits a \<and> \<not> int (digitsValue a) < int (length content) \<longrightarrow>
            notSatisfiable (stream (Some content) (Some (''bytes='' @ a @ ''-''))) content)
       \<and> (isDigits b
            \<and> \<not> (max (int (length content) - int (digitsValue b)) 0 \<le> int (length content) - 1) \<longrightarrow>
            notSatisfiable (stream (Some content) (Some (''bytes=-'' @ b))) content)"
proof -
  let ?n = "int (length content)"
  let ?h = "''bytes='' @ a @ CHR ''-'' # b"
  note da = assms(2) and db = assms(3)
  have dn: "CHR ''-'' \<notin> set []" by simp
  have c1: "stream (Some content) (Some r) = rangeNotSatisfiable ?n" if "\<not> prefix ''bytes='' r"
    using that assms(1) by (simp add: stream_def Let_def)
  have c2: "stream (Some content) (Some (''bytes='' @ a)) = rangeNotSatisfiable ?n"
    if "parseInt a = None"
  proof -
    have "resolveRange ?n (''bytes='' @ a) = None"
      by (simp add: resolveRange_one_part [OF da] that del: append.simps)
    moreover have "prefix ''bytes='' (''bytes='' @ a)"
      by (rule prefixI) simp
    ultimately show ?thesis
      by (intro stream_unsatisfiable) simp_all
  qed
  have c3: "stream (Some content) (Some ?h) = rangeNotSatisfiable ?n"
    if "parseInt a = None" "parseInt b = None"
    using da db by (rule two_parts_unsatisfiable) (simp add: that)
  have c4: "stream (Some content) (Some (''bytes='' @ [] @ CHR ''-'' # b)) = rangeNotSatisfiable ?n"
    if "parseInt b = None"
    using dn db by (rule two_parts_unsatisfiable) (simp add: that parseInt_empty)
  have c5: "stream (Some content) (Some ?h) = rangeNotSatisfiable ?n"
    if "parseInt a = None" "parseInt b = Some k" "\<not> (max (?n - k) 0 \<le> ?n - 1)"
    using da db by (rule two_parts_unsatisfiable) (use that in simp)
  have c6: "stream (Some content) (Some ?h) = rangeNotSatisfiable ?n"
    if "parseInt a = Some s" "parseInt b = None" "\<not> (0 \<le> s \<and> s \<le> ?n - 1)"
    using da db by (rule two_parts_unsatisfiable) (use that in simp)
  have c7: "stream (Some content) (Some ?h) = rangeNotSatisfiable ?n"
    if "parseInt a = Some s" "parseInt b = Some e" "\<not> (0 \<le> s \<and> s \<le> e \<and> e < ?n)"
    using da db by (rule two_parts_unsatisfiable) (use that in simp)
  have c8: "stream (Some content) (Some ?h) = rangeNotSatisfiable ?n"
    if "isDigits a" "isDigits b"
      "\<not> (int (digitsValue a) \<le> int (digitsValue b) \<and> int (digitsValue b) < ?n)"
    using da db by (rule two_parts_unsatisfiable) (use that in \<open>simp add: parseInt_digits\<close>)
  have c9: "stream (Some content) (Some (''bytes='' @ a @ CHR ''-'' # [])) = rangeNotSatisfiable ?n"
    if "isDigits a" "\<not> int (digitsValue a) < ?n"
    using da dn by (rule two_parts_unsatisfiable) (use that in \<open>simp add: parseInt_digits parseInt_empty\<close>)
  have c10: "stream (Some content) (Some (''bytes='' @ [] @ CHR ''-'' # b)) = rangeNotSatisfiable ?n"
    if "isDigits b" "\<not> (max (?n - int (digitsValue b)) 0 \<le> ?n - 1)"
    using dn db by (rule two_parts_unsatisfiable) (use that in \<open>simp add: parseInt_digits parseInt_empty\<close>)
  show ?thesis
    using c1 c2 c3 c4 c5 c6 c7 c8 c9 c10 by (auto intro!: rangeNotSatisfiable_ok)
qed

theorem unsatisfiable_range_416_witness:
  "notSatisfiable (stream (Some ''0123456789'') (Some ''items=0-5'')) ''0123456789''
   \<and> notSatisfiable (stream (Some ''0123456789'') (Some ''bytes=abc'')) ''0123456789''
   \<and> notSatisfiable (stream (Some ''0123456789'') (Some ''bytes=x-y'')) ''0123456789''
   \<and> notSatisfiable (stream (Some ''0123456789'') (Some ''bytes=-abc'')) ''0123456789''
   \<and> notSatisfiable (stream (Some ''0123456789'') (Some ''bytes=-0'')) ''0123456789''
   \<and> notSatisfiable (stream (Some ''0123456789'') (Some ''bytes=20-'')) ''0123456789''
   \<and> notSatisfiable (stream (Some ''0123456789'') (Some ''bytes=5-2'')) ''0123456789''
   \<and> notSatisfiable (stream (Some ''0123456789'') (Some ''bytes=5-30'')) ''0123456789''
   \<and> header (stream (Some ''0123456789'') (Some ''bytes=5-30'')) ''Content-Range'' = Some ''bytes */10''"
proof -
  have pn: "parseInt ''abc'' = None" "parseInt ''x'' = None" "parseInt ''y'' = None"
    "parseInt [] = None"
    by code_simp+
  have ps: "parseInt ''0'' = Some 0" "parseInt ''20'' = Some 20" "parseInt ''5'' = Some 5"
    "parseInt ''2'' = Some 2" "parseInt ''30'' = Some 30"
    by code_simp+
  have "notSatisfiable (stream (Some ''0123456789'') (Some ''items=0-5'')) ''0123456789''"
    using unsatisfiable_range_416 [where r = "''items=0-5''" and a = "''abc''" and b = "''abc''"
        and content = "''0123456789''" and k = 0 and s = 0 and e = 0]
    by simp
  moreover have "notSatisfiable (stream (Some ''0123456789'') (Some ''bytes=abc'')) ''0123456789''"
    using unsatisfiable_range_416 [where r = "''items=0-5''" and a = "''abc''" and b = "''abc''"
        and content = "''0123456789''" and k = 0 and s = 0 and e = 0] pn
    by simp
  moreover have "notSatisfiable (stream (Some ''0123456789'') (Some ''bytes=x-y'')) ''0123456789''"
    using unsatisfiable_range_416 [where r = "''items=0-5''" and a = "''x''" and b = "''y''"
        and content = "''0123456789''" and k = 0 and s = 0 and e = 0] pn
    by simp
  moreover have "notSatisfiable (stream (Some ''0123456789'') (Some ''bytes=-abc'')) ''0123456789''"
    using unsatisfiable_range_416 [where r = "''items=0-5''" and a = "''abc''" and b = "''abc''"
        and content = "''0123456789''" and k = 0 and s = 0 and e = 0] pn
    by simp
  moreover have "notSatisfiable (stream (Some ''0123456789'') (Some ''bytes=-0'')) ''0123456789''"
    using unsatisfiable_range_416 [where r = "''items=0-5''" and a = "[]" and b = "''0''"
        and content = "''0123456789''" and k = 0 and s = 0 and e = 0] pn ps
    by simp
  moreover have "notSatisfiable (stream (Some ''0123456789'') (Some ''bytes=20-'')) ''0123456789''"
    using unsatisfiable_range_416 [where r = "''items=0-5''" and a = "''20''" and b = "[]"
        and content = "''0123456789''" and k = 0 and s = 20 and e = 0] pn ps
    by simp
  moreover have "notSatisfiable (stream (Some ''0123456789'') (Some ''bytes=5-2'')) ''0123456789''"
    using unsatisfiable_range_416 [where r = "''items=0-5''" and a = "''5''" and b = "''2''"
        and content = "''0123456789''" and k = 0 and s = 5 and e = 2] ps
    by simp
  moreover have "notSatisfiable (stream (Some ''0123456789'') (Some ''bytes=5-30'')) ''0123456789''"
    using unsatisfiable_range_416 [where r = "''items=0-5''" and a = "''5''" and b = "''30''"
        and content = "''0123456789''" and k = 0 and s = 5 and e = 30] ps
    by simp
  moreover have "header (stream (Some ''0123456789'') (Some ''bytes=5-30'')) ''Content-Range'' = Some ''bytes */10''"
    by code_simp
  ultimately show ?thesis by blast
qed

text \<open>
  Every answer for a file that exists carries \<^verbatim>\<open>Access-Control-Allow-Origin: *\<close>.
\<close>

lemma existing_file_cors:
  "header (stream (Some content) rangeHeader) ''Access-Control-Allow-Origin'' = Some ''*''"
  by (simp add: stream_def Let_def header_def corsHeaders_def rangeNotSatisfiable_def
      split: option.splits prod.splits)

text \<open>
  Claim C8 at the missing file: the answer is 404 with the plain message, and it carries
  no \<^verbatim>\<open>Access-Control-Allow-Origin\<close> header, since the 404 is sent before
  \<^verbatim>\<open>corsHeaders\<close> is used.
\<close>

theorem missing_file_no_cors:
  "status (stream None rangeHeader) = 404
   \<and> body (stream None rangeHeader) = ''Video file not found.''
   \<and> header (stream None rangeHeader) ''Access-Control-Allow-Origin'' = None"
  by (simp add: stream_def header_def)

text \<open>
  Claim C10. For a header \<^verbatim>\<open>bytes=a-b\<close> on an existing file where \<open>a\<close> parses to an
  integer \<open>s\<close> below the size of the file (it is then not negative) and \<open>b\<close> does not
  parse, the answer is not 416: it is the 206 that serves the bytes \<open>s\<close> to size - 1.
\<close>

theorem unparsable_end_served:
  assumes "CHR ''-'' \<notin> set a" and "CHR ''-'' \<notin> set b"
    and "parseInt a = Some s" and "s < int (length content)" and "parseInt b = None"
  shows "0 \<le> s
       \<and> servesRange (stream (Some content) (Some (''bytes='' @ a @ ''-'' @ b))) content
            s (int (length content) - 1)
       \<and> status (stream (Some content) (Some (''bytes='' @ a @ ''-'' @ b))) \<noteq> 416"
proof -
  let ?n = "int (length content)"
  have nonneg: "0 \<le> s"
    using assms(1,3) by (rule parseInt_nonneg)
  have res: "resolveRange ?n (''bytes='' @ a @ CHR ''-'' # b) = Some (s, ?n - 1)"
    by (simp add: resolveRange_two_parts [OF assms(1,2)] assms(3,5) del: append.simps)
  have p: "prefix ''bytes='' (''bytes='' @ a @ CHR ''-'' # b)"
    by (rule prefixI) simp
  have "servesRange (stream (Some content) (Some (''bytes='' @ a @ CHR ''-'' # b))) content s (?n - 1)"
    using p res nonneg by (rule stream_satisfiable) (use assms(4) in simp_all)
  then show ?thesis
    using nonneg by (simp add: servesRange_def)
qed

theorem unparsable_end_served_witness:
  "servesRange (stream (Some ''0123456789'') (Some ''bytes=5-abc'')) ''0123456789'' 5 9
   \<and> body (stream (Some ''0123456789'') (Some ''bytes=5-abc'')) = ''56789''"
proof -
  have a: "parseInt ''5'' = Some 5" and b: "parseInt ''abc'' = None"
    by code_simp+
  have "servesRange (stream (Some ''0123456789'') (Some ''bytes=5-abc'')) ''0123456789'' 5 9"
    using unparsable_end_served [of "''5''" "''abc''" 5 "''0123456789''"] a b by simp
  moreover have "body (stream (Some ''0123456789'') (Some ''bytes=5-abc'')) = ''56789''"
    by code_simp
  ultimately show ?thesis by blast
qed

section \<open>The reconciliation of the player\<close>




lemma play_position: "localPosition (fst (play p opts playOk)) = localPosition p"
  by (simp add: play_def localPosition_def Let_def split: option.splits)

lemma pause_position: "localPosition (fst (pause p opts)) = localPosition p"
  by (simp add: pause_def localPosition_def Let_def split: option.splits)




lemma reconcile_within_threshold:
  assumes "videoElementRef p = Some video"
    and "seeking video \<or> \<bar>target - video_currentTime video\<bar> \<le> 1 / 10"
  shows "localPosition (fst (reconcile p playing target playOk)) = Some (video_currentTime video)"
proof -
  have "fst (if \<not> seeking video then
               (let driftSeconds = target - video_currentTime video in
                if \<bar>driftSeconds\<bar> > FORCE_SYNC_THRESHOLD_SECONDS
                then seekTo p target (Some False) else (p, []))
             else (p, [])) = p"
    using assms(2) by (auto simp: FORCE_SYNC_THRESHOLD_SECONDS_def Let_def)
  then have "localPosition (fst (reconcile p playing target playOk)) = localPosition p"
    using assms(1) by (simp add: reconcile_def split_beta play_position pause_position)
  then show ?thesis
    using assms(1) by (simp add: localPosition_def)
qed


lemma targetTime_no_server_time:
  "\<not> isFiniteNumber v \<Longrightarrow> targetTime playing time v nowMs = time"
  by (cases v rule: isFiniteNumber.cases) (simp_all add: targetTime_def)







lemma syncInterval_suspended:
  "videoElementRef p = None \<or> isScrubbingRef p \<Longrightarrow> syncInterval p nowMs playOk = (p, [])"
  by (auto simp: syncInterval_def split: option.splits)

lemma handleSyncState_suspended:
  assumes "map_of props ''isPlaying'' = Some (JBoolean playing)"
    and "map_of props ''currentTime'' = Some (JNumber (Finite time))"
    and "videoElementRef p = None \<or> isScrubbingRef p"
  shows "localPosition (fst (handleSyncState p (JObject props) recvMs nowMs playOk)) = localPosition p
       \<and> snd (handleSyncState p (JObject props) recvMs nowMs playOk) = []"
  using assms by (auto simp: handleSyncState_def Let_def localPosition_def split: option.splits)




end
